theory Spec2Isabelle
  imports Complex_Main "HOL-Library.Multiset"
begin

section \<open>The RAFT notebook: data model\<close>

text \<open>
  The notebook glues calls into a deep-learning library together with Python control
  flow. The control flow, the Python values (lists, strings, the local variable
  \<open>loss\<close>, the exceptions Python itself raises) and the global objects are modelled
  here; what the library computes (forward passes, gradients, optimizer updates) is not
  in the repository and is taken as a parameter, the record \<open>torch\<close> below.
\<close>

datatype error =
    TypeError            \<comment> \<open>iteration over a 0-d tensor\<close>
  | IndexError           \<comment> \<open>list index out of range\<close>
  | UnboundLocalError    \<comment> \<open>a local variable read before any assignment\<close>
  | LibraryError string  \<comment> \<open>any exception raised inside a library call\<close>

text \<open>The lines the notebook prints, in the order of the three \<open>print\<close> calls.\<close>

datatype printed =
    EpochLine nat real           \<comment> \<open>\<open>Epoch {epoch+1}, Loss: {loss.item()}\<close>\<close>
  | IterationLine nat            \<comment> \<open>\<open>Iteration {iteration+1}...\<close>\<close>
  | FineTuneLossLine nat real    \<comment> \<open>\<open>Epoch {epoch+1} Fine-tuning loss: {loss.item()}\<close>\<close>

text \<open>
  A module object: its learned state (parameters together with their accumulated
  gradients) and the \<open>training\<close> flag that \<open>.train()\<close> and \<open>.eval()\<close> set.
\<close>

record 'w module =
  weights :: 'w
  training :: bool

text \<open>
  The global objects of the notebook: the two models, the library's global random
  number generator, and what has been printed so far.
\<close>

record ('w, 'r) notebook =
  reward_model :: "'w module"
  generative_model :: "'w module"
  rng :: 'r
  stdout :: "printed list"

text \<open>\<open>fine_tune_model\<close> receives a model by reference and mutates it in place.\<close>

datatype model_ref = Reward_model | Generative_model

fun get_model :: "model_ref \<Rightarrow> ('w, 'r) notebook \<Rightarrow> 'w module" where
  "get_model Reward_model st = reward_model st"
| "get_model Generative_model st = generative_model st"

fun set_model :: "model_ref \<Rightarrow> 'w module \<Rightarrow> ('w, 'r) notebook \<Rightarrow> ('w, 'r) notebook" where
  "set_model Reward_model m st = st\<lparr>reward_model := m\<rparr>"
| "set_model Generative_model m st = st\<lparr>generative_model := m\<rparr>"

definition print_line :: "printed \<Rightarrow> ('w, 'r) notebook \<Rightarrow> ('w, 'r) notebook" where
  "print_line l st = st\<lparr>stdout := stdout st @ [l]\<rparr>"

text \<open>
  The library calls of the notebook, as parameters.
  \<^item> \<open>classify w t r samples\<close> is \<open>reward_model(**tokenizer(samples, padding=True,
    truncation=True, return_tensors="pt")).logits\<close> under \<open>torch.no_grad()\<close>: with
    \<open>num_labels=1\<close> the logits have shape \<open>(n, 1)\<close>, given here as the list of the
    \<open>n\<close> rows' single entries. The forward pass reads the weights \<open>w\<close>, the training
    flag \<open>t\<close> (dropout is active exactly in training mode) and the random state
    \<open>r\<close>, and returns the logits and the random state it leaves; it does not write
    the weights.
  \<^item> \<open>AdamW w lr\<close> is \<open>optim.AdamW(model.parameters(), lr=lr)\<close>: a fresh optimizer state.
  \<^item> \<open>lm_step w t opt r sample\<close> is the body of the inner fine-tuning loop: tokenise
    the sample, clone its ids as labels, forward pass with labels, \<open>loss.backward()\<close>,
    \<open>optimizer.step()\<close>. It returns \<open>loss.item()\<close> and the new weights, optimizer
    state and random state.
  \<^item> \<open>cls_step w t opt r texts labels\<close> is the body of the reward model's training
    loop: \<open>zero_grad\<close>, forward pass on the batch, mean squared error against the
    labels, \<open>backward\<close>, \<open>step\<close>.
  Each call that can raise returns \<open>Inl\<close> of the exception.
\<close>

record ('w, 'r, 'o) torch =
  classify :: "'w \<Rightarrow> bool \<Rightarrow> 'r \<Rightarrow> string list \<Rightarrow> error + (real list \<times> 'r)"
  AdamW :: "'w \<Rightarrow> real \<Rightarrow> 'o"
  lm_step :: "'w \<Rightarrow> bool \<Rightarrow> 'o \<Rightarrow> 'r \<Rightarrow> string \<Rightarrow> error + (real \<times> 'w \<times> 'o \<times> 'r)"
  cls_step :: "'w \<Rightarrow> bool \<Rightarrow> 'o \<Rightarrow> 'r \<Rightarrow> string list \<Rightarrow> real list
                 \<Rightarrow> error + (real \<times> 'w \<times> 'o \<times> 'r)"

subsection \<open>Tensors of rank 0 and 1\<close>

text \<open>
  \<open>.squeeze()\<close> without an argument removes every dimension of size 1. Applied to
  logits of shape \<open>(n, 1)\<close> it gives a vector of \<open>n\<close> entries, except for \<open>n = 1\<close>,
  where both dimensions go and a 0-d tensor is left.
\<close>

datatype 'a tensor = Tensor0 'a | Tensor1 "'a list"

definition squeeze :: "real list \<Rightarrow> real tensor" where
  "squeeze logits = (case logits of [x] \<Rightarrow> Tensor0 x | _ \<Rightarrow> Tensor1 logits)"

text \<open>
  \<open>torch.argsort(t, descending=True)\<close> along the last dimension: the indices that
  put the entries in descending order. A 0-d tensor has the one index 0, returned as a
  0-d tensor. The library leaves the order of equal entries open; the model keeps
  them in their input order.
\<close>

definition argsort_descending :: "real tensor \<Rightarrow> nat tensor" where
  "argsort_descending t =
     (case t of
        Tensor0 x \<Rightarrow> Tensor0 0
      | Tensor1 xs \<Rightarrow> Tensor1 (sort_key (\<lambda>i. - (xs ! i)) [0..<length xs]))"

text \<open>Python's \<open>for i in t\<close>: a 0-d tensor cannot be iterated.\<close>

definition tensor_iter :: "'a tensor \<Rightarrow> error + 'a list" where
  "tensor_iter t = (case t of Tensor0 x \<Rightarrow> Inl TypeError | Tensor1 xs \<Rightarrow> Inr xs)"

definition getitem :: "'a list \<Rightarrow> nat \<Rightarrow> error + 'a" where
  "getitem xs i = (if i < length xs then Inr (xs ! i) else Inl IndexError)"

text \<open>A list comprehension whose element expression can raise.\<close>

fun comprehension :: "('a \<Rightarrow> error + 'b) \<Rightarrow> 'a list \<Rightarrow> error + 'b list" where
  "comprehension f [] = Inr []"
| "comprehension f (x # xs) =
     (case f x of
        Inl e \<Rightarrow> Inl e
      | Inr y \<Rightarrow> (case comprehension f xs of Inl e \<Rightarrow> Inl e | Inr ys \<Rightarrow> Inr (y # ys)))"

section \<open>The sample generator\<close>

text \<open>\<open>str(i)\<close> for a Python integer: decimal digits, a minus sign when negative.\<close>

definition digit :: "nat \<Rightarrow> char" where
  "digit d = ''0123456789'' ! d"

fun str_nat :: "nat \<Rightarrow> string" where
  "str_nat n = (if n < 10 then [digit n] else str_nat (n div 10) @ [digit (n mod 10)])"

declare str_nat.simps [simp del]

definition str :: "int \<Rightarrow> string" where
  "str i = (if i < 0 then ''-'' @ str_nat (nat (- i)) else str_nat (nat i))"

text \<open>\<open>range(n)\<close>: the integers from 0 below \<open>n\<close>, none when \<open>n \<le> 0\<close>.\<close>

definition range_py :: "int \<Rightarrow> int list" where
  "range_py n = map int [0..<nat n]"

text \<open>
  \<^verbatim>\<open>def generate_samples(prompt, num_samples=5):
    return [f"Generated response {i} for {prompt}" for i in range(num_samples)]\<close>
\<close>

definition generate_samples :: "string \<Rightarrow> int \<Rightarrow> string list" where
  "generate_samples prompt num_samples =
     map (\<lambda>i. ''Generated response '' @ str i @ '' for '' @ prompt) (range_py num_samples)"

text \<open>The default of the second parameter.\<close>

definition num_samples_default :: int where
  "num_samples_default = 5"

section \<open>The ranker\<close>

text \<open>
  \<^verbatim>\<open>def rank_samples(samples):
    inputs = tokenizer(samples, padding=True, truncation=True, return_tensors="pt")
    with torch.no_grad():
        rewards = reward_model(**inputs).logits.squeeze()
    return [samples[i] for i in torch.argsort(rewards, descending=True)]\<close>
  The global \<open>reward_model\<close> is read as it stands, training flag included.
\<close>

definition rank_samples ::
  "('w, 'r, 'o) torch \<Rightarrow> string list \<Rightarrow> ('w, 'r) notebook
     \<Rightarrow> (error + string list) \<times> ('w, 'r) notebook" where
  "rank_samples lib samples st =
     (case classify lib (weights (reward_model st)) (training (reward_model st)) (rng st) samples of
        Inl e \<Rightarrow> (Inl e, st)
      | Inr (logits, r') \<Rightarrow>
          (let rewards = squeeze logits in
           case tensor_iter (argsort_descending rewards) of
             Inl e \<Rightarrow> (Inl e, st\<lparr>rng := r'\<rparr>)
           | Inr indices \<Rightarrow> (comprehension (getitem samples) indices, st\<lparr>rng := r'\<rparr>)))"

section \<open>The fine-tuner\<close>

text \<open>
  The inner loop \<open>for sample in dataset\<close>. The local variable \<open>loss\<close> is \<open>None\<close>
  until the first assignment and keeps its value from one epoch to the next.
\<close>

fun train_samples ::
  "('w, 'r, 'o) torch \<Rightarrow> model_ref \<Rightarrow> string list \<Rightarrow> 'o \<Rightarrow> real option \<Rightarrow> ('w, 'r) notebook
     \<Rightarrow> (error + ('o \<times> real option)) \<times> ('w, 'r) notebook" where
  "train_samples lib model [] optimizer loss st = (Inr (optimizer, loss), st)"
| "train_samples lib model (sample # rest) optimizer loss st =
     (case lm_step lib (weights (get_model model st)) (training (get_model model st))
             optimizer (rng st) sample of
        Inl e \<Rightarrow> (Inl e, st)
      | Inr (l, w', optimizer', r') \<Rightarrow>
          train_samples lib model rest optimizer' (Some l)
            (set_model model ((get_model model st)\<lparr>weights := w'\<rparr>) (st\<lparr>rng := r'\<rparr>)))"

text \<open>One pass of the outer loop: the inner loop, then the \<open>print\<close> of \<open>loss.item()\<close>.\<close>

definition epoch_body ::
  "('w, 'r, 'o) torch \<Rightarrow> model_ref \<Rightarrow> string list \<Rightarrow> nat \<Rightarrow> 'o \<Rightarrow> real option \<Rightarrow> ('w, 'r) notebook
     \<Rightarrow> (error + ('o \<times> real option)) \<times> ('w, 'r) notebook" where
  "epoch_body lib model dataset epoch optimizer loss st =
     (case train_samples lib model dataset optimizer loss st of
        (Inl e, st') \<Rightarrow> (Inl e, st')
      | (Inr (optimizer', loss'), st') \<Rightarrow>
          (case loss' of
             None \<Rightarrow> (Inl UnboundLocalError, st')
           | Some l \<Rightarrow> (Inr (optimizer', loss'), print_line (FineTuneLossLine (epoch + 1) l) st')))"

fun epochs ::
  "('w, 'r, 'o) torch \<Rightarrow> model_ref \<Rightarrow> string list \<Rightarrow> nat list \<Rightarrow> 'o \<Rightarrow> real option
     \<Rightarrow> ('w, 'r) notebook \<Rightarrow> (error + unit) \<times> ('w, 'r) notebook" where
  "epochs lib model dataset [] optimizer loss st = (Inr (), st)"
| "epochs lib model dataset (epoch # later) optimizer loss st =
     (case epoch_body lib model dataset epoch optimizer loss st of
        (Inl e, st') \<Rightarrow> (Inl e, st')
      | (Inr (optimizer', loss'), st') \<Rightarrow> epochs lib model dataset later optimizer' loss' st')"

text \<open>
  \<^verbatim>\<open>def fine_tune_model(model, dataset):
    model.train()
    optimizer = optim.AdamW(model.parameters(), lr=1e-5)
    for epoch in range(3):
        for sample in dataset:
            ...
            loss = outputs.loss
            loss.backward()
            optimizer.step()
        print(f"Epoch {epoch+1} Fine-tuning loss: {loss.item()}")\<close>
  The function has no \<open>return\<close>: its value is \<open>None\<close>, here \<open>()\<close>.
\<close>

definition fine_tune_model ::
  "('w, 'r, 'o) torch \<Rightarrow> model_ref \<Rightarrow> string list \<Rightarrow> ('w, 'r) notebook
     \<Rightarrow> (error + unit) \<times> ('w, 'r) notebook" where
  "fine_tune_model lib model dataset st =
     (let st1 = set_model model ((get_model model st)\<lparr>training := True\<rparr>) st;
          optimizer = AdamW lib (weights (get_model model st1)) (1 / 100000)
      in epochs lib model dataset [0..<3] optimizer None st1)"

section \<open>The iteration driver\<close>

definition prompt :: string where
  "prompt = ''What is artificial intelligence?''"

text \<open>
  \<^verbatim>\<open>for iteration in range(5):
    print(f"Iteration {iteration+1}...")
    prompt = "What is artificial intelligence?"
    samples = generate_samples(prompt)
    ranked_samples = rank_samples(samples)[:3]
    fine_tune_model(generative_model, ranked_samples)\<close>
\<close>

definition raft_iteration ::
  "('w, 'r, 'o) torch \<Rightarrow> nat \<Rightarrow> ('w, 'r) notebook \<Rightarrow> (error + unit) \<times> ('w, 'r) notebook" where
  "raft_iteration lib iteration st =
     (let st1 = print_line (IterationLine (iteration + 1)) st;
          samples = generate_samples prompt num_samples_default
      in case rank_samples lib samples st1 of
           (Inl e, st2) \<Rightarrow> (Inl e, st2)
         | (Inr ranked, st2) \<Rightarrow> fine_tune_model lib Generative_model (take 3 ranked) st2)"

fun raft_iterations ::
  "('w, 'r, 'o) torch \<Rightarrow> nat list \<Rightarrow> ('w, 'r) notebook \<Rightarrow> (error + unit) \<times> ('w, 'r) notebook" where
  "raft_iterations lib [] st = (Inr (), st)"
| "raft_iterations lib (iteration # later) st =
     (case raft_iteration lib iteration st of
        (Inl e, st') \<Rightarrow> (Inl e, st')
      | (Inr u, st') \<Rightarrow> raft_iterations lib later st')"

definition raft_loop ::
  "('w, 'r, 'o) torch \<Rightarrow> ('w, 'r) notebook \<Rightarrow> (error + unit) \<times> ('w, 'r) notebook" where
  "raft_loop lib st = raft_iterations lib [0..<5] st"

section \<open>The reward model's training cell\<close>

text \<open>The hard-coded (prompt, response, label) triples.\<close>

definition data :: "(string \<times> string \<times> real) list" where
  "data =
     [(''What is AI?'', ''AI stands for Artificial Intelligence.'', 9 / 10),
      (''What is deep learning?'', ''Deep learning is a subset of machine learning.'', 8 / 10),
      (''Tell me a joke.'', ''Why did the chicken cross the road?'', 6 / 10)]"

fun reward_epochs ::
  "('w, 'r, 'o) torch \<Rightarrow> string list \<Rightarrow> real list \<Rightarrow> nat list \<Rightarrow> 'o \<Rightarrow> ('w, 'r) notebook
     \<Rightarrow> (error + unit) \<times> ('w, 'r) notebook" where
  "reward_epochs lib texts labels [] optimizer st = (Inr (), st)"
| "reward_epochs lib texts labels (epoch # later) optimizer st =
     (case cls_step lib (weights (reward_model st)) (training (reward_model st))
             optimizer (rng st) texts labels of
        Inl e \<Rightarrow> (Inl e, st)
      | Inr (l, w', optimizer', r') \<Rightarrow>
          reward_epochs lib texts labels later optimizer'
            (print_line (EpochLine (epoch + 1) l)
               (st\<lparr>reward_model := (reward_model st)\<lparr>weights := w'\<rparr>, rng := r'\<rparr>)))"

text \<open>
  \<^verbatim>\<open>optimizer = optim.AdamW(reward_model.parameters(), lr=5e-5)
reward_model.train()
for epoch in range(3):
    optimizer.zero_grad()
    outputs = reward_model(**inputs).logits
    loss = criterion(outputs, labels)
    loss.backward()
    optimizer.step()
    print(f"Epoch {epoch+1}, Loss: {loss.item()}")\<close>
  Nothing after this cell calls \<open>reward_model.eval()\<close>.
\<close>

definition train_reward_model ::
  "('w, 'r, 'o) torch \<Rightarrow> ('w, 'r) notebook \<Rightarrow> (error + unit) \<times> ('w, 'r) notebook" where
  "train_reward_model lib st =
     (let texts = map (\<lambda>d. fst (snd d)) data;
          labels = map (\<lambda>d. snd (snd d)) data;
          optimizer = AdamW lib (weights (reward_model st)) (5 / 100000);
          st1 = st\<lparr>reward_model := (reward_model st)\<lparr>training := True\<rparr>\<rparr>
      in reward_epochs lib texts labels [0..<3] optimizer st1)"

section \<open>What the driver's theorem assumes of the library\<close>

text \<open>
  On the given batch of samples the forward pass of the reward model returns, in
  whatever state it is called, one logit for each sample; on each of the given
  samples the fine-tuning step returns. Nothing is assumed of other inputs.
\<close>

definition classify_returns :: "('w, 'r, 'o) torch \<Rightarrow> string list \<Rightarrow> bool" where
  "classify_returns lib samples \<longleftrightarrow>
     (\<forall>w t r. \<exists>logits r'.
        classify lib w t r samples = Inr (logits, r') \<and> length logits = length samples)"

definition lm_step_returns :: "('w, 'r, 'o) torch \<Rightarrow> string list \<Rightarrow> bool" where
  "lm_step_returns lib samples \<longleftrightarrow>
     (\<forall>w t opt r. \<forall>sample \<in> set samples. \<exists>res. lm_step lib w t opt r sample = Inr res)"

section \<open>A small library instance\<close>

text \<open>
  An instance of the library to run the notebook on: a model has one integer weight, the
  random state is a counter, the optimizer state counts its steps. The reward of a
  sample is the weight times the sample's length; in training mode dropout zeroes the
  samples at every other position of the batch, starting where the random state says,
  and advances the random state. In evaluation mode the scores are a function of the
  weight and the samples alone. A training step reports the weight plus the sample's
  length as loss and lowers the weight by one.
\<close>

definition toy_torch :: "(int, nat, nat) torch" where
  "toy_torch =
     \<lparr>classify = (\<lambda>w t r samples.
        Inr (map (\<lambda>(i, s). if t \<and> even (i + r) then 0 else of_int w * real (length s))
               (zip [0..<length samples] samples),
             if t then Suc r else r)),
      AdamW = (\<lambda>w lr. 0),
      lm_step = (\<lambda>w t opt r sample.
        Inr (of_int w + real (length sample), w - 1, Suc opt, if t then Suc r else r)),
      cls_step = (\<lambda>w t opt r texts labels.
        Inr (of_int w, w - 1, Suc opt, if t then Suc r else r))\<rparr>"

text \<open>The same library on a machine where the reward model's forward pass fails.\<close>

definition classify_failing_torch :: "(int, nat, nat) torch" where
  "classify_failing_torch =
     toy_torch\<lparr>classify := (\<lambda>w t r samples. Inl (LibraryError ''out of memory''))\<rparr>"

text \<open>And one whose fine-tuning step fails once the weight has come down to zero.\<close>

definition lm_step_failing_torch :: "(int, nat, nat) torch" where
  "lm_step_failing_torch =
     toy_torch\<lparr>lm_step := (\<lambda>w t opt r sample.
        if w \<le> 0 then Inl (LibraryError ''loss is not finite'')
        else lm_step toy_torch w t opt r sample)\<rparr>"

text \<open>
  And one that, like the real library, does not return on every input: the forward
  pass raises on the empty batch, the fine-tuning step on a sample of more than 1024
  characters.
\<close>

definition partial_torch :: "(int, nat, nat) torch" where
  "partial_torch =
     toy_torch\<lparr>classify := (\<lambda>w t r samples.
        if samples = [] then Inl (LibraryError ''empty batch'')
        else classify toy_torch w t r samples),
      lm_step := (\<lambda>w t opt r sample.
        if length sample > 1024 then Inl (LibraryError ''sequence too long'')
        else lm_step toy_torch w t opt r sample)\<rparr>"

definition toy_notebook :: "(int, nat) notebook" where
  "toy_notebook =
     \<lparr>reward_model = \<lparr>weights = 5, training = False\<rparr>,
      generative_model = \<lparr>weights = 10, training = False\<rparr>,
      rng = 0,
      stdout = []\<rparr>"

section \<open>Properties of the sample generator\<close>

lemma length_generate_samples: "length (generate_samples p n) = nat n"
  by (simp add: generate_samples_def range_py_def)

lemma str_single_digit: "0 \<le> i \<Longrightarrow> i < 10 \<Longrightarrow> str i = [digit (nat i)]"
  by (simp add: str_def str_nat.simps)

text \<open>
  C2. For every prompt \<open>p\<close> and every count \<open>n\<close>, \<open>generate_samples p n\<close> has
  \<open>n\<close> elements (none when \<open>n\<close> is negative), and its element \<open>i\<close> is the literal
  text \<open>Generated response i for p\<close>, with \<open>i\<close> in decimal. The function takes the
  prompt and the count and nothing else: no model, no weights and no random state
  reach it, so the driver hands the same list to the ranker in every iteration.
\<close>

theorem generate_samples_placeholders:
  "length (generate_samples p n) = nat n \<and>
   (\<forall>i<nat n. generate_samples p n ! i = ''Generated response '' @ str (int i) @ '' for '' @ p)"
  by (simp add: generate_samples_def range_py_def)

theorem generate_samples_placeholders_witness:
  "length (generate_samples ''Hi'' num_samples_default) = 5 \<and>
   generate_samples ''Hi'' num_samples_default ! 4 = ''Generated response 4 for Hi''"
  using generate_samples_placeholders [of "''Hi''" num_samples_default]
  by (simp add: num_samples_default_def str_def str_nat.simps digit_def)

section \<open>Properties of the ranker\<close>

lemma comprehension_getitem:
  "(\<And>i. i \<in> set indices \<Longrightarrow> i < length xs) \<Longrightarrow>
     comprehension (getitem xs) indices = Inr (map (\<lambda>i. xs ! i) indices)"
  by (induction indices) (simp_all add: getitem_def)

lemma comprehension_length:
  "comprehension f xs = Inr ys \<Longrightarrow> length ys = length xs"
  by (induction xs arbitrary: ys) (auto split: sum.splits)

lemma squeeze_vector: "length logits \<noteq> 1 \<Longrightarrow> squeeze logits = Tensor1 logits"
  by (cases logits; cases "tl logits") (auto simp: squeeze_def split: list.splits)

lemma squeeze_scalar: "squeeze [x] = Tensor0 x"
  by (simp add: squeeze_def)

lemma rank_samples_vector:
  assumes "classify lib (weights (reward_model st)) (training (reward_model st)) (rng st) samples
             = Inr (logits, r')"
    and "length logits = length samples" and "length samples \<noteq> 1"
  shows "rank_samples lib samples st =
           (Inr (map (\<lambda>i. samples ! i) (sort_key (\<lambda>i. - (logits ! i)) [0..<length logits])),
            st\<lparr>rng := r'\<rparr>)"
proof -
  have sq: "squeeze logits = Tensor1 logits"
    using assms by (simp add: squeeze_vector)
  have "comprehension (getitem samples) (sort_key (\<lambda>i. - (logits ! i)) [0..<length logits])
          = Inr (map (\<lambda>i. samples ! i) (sort_key (\<lambda>i. - (logits ! i)) [0..<length logits]))"
    by (rule comprehension_getitem) (use assms in simp)
  then show ?thesis
    using assms(1) sq
    by (simp add: rank_samples_def argsort_descending_def tensor_iter_def)
qed

lemma rank_samples_scalar:
  assumes "classify lib (weights (reward_model st)) (training (reward_model st)) (rng st) samples
             = Inr ([x], r')"
  shows "rank_samples lib samples st = (Inl TypeError, st\<lparr>rng := r'\<rparr>)"
  using assms
  by (simp add: rank_samples_def squeeze_def argsort_descending_def tensor_iter_def)

text \<open>
  A failure of the forward pass leaves \<open>rank_samples\<close> as it is, in the state of the
  call.
\<close>

lemma rank_samples_raises:
  assumes "classify lib (weights (reward_model st)) (training (reward_model st)) (rng st) samples
             = Inl e"
  shows "rank_samples lib samples st = (Inl e, st)"
  using assms by (simp add: rank_samples_def)

lemma mset_map_argsort:
  "length logits = length samples \<Longrightarrow>
     mset (map (\<lambda>i. samples ! i) (sort_key f [0..<length logits])) = mset samples"
proof -
  assume len: "length logits = length samples"
  have "mset (map (\<lambda>i. samples ! i) (sort_key f [0..<length logits]))
          = image_mset (\<lambda>i. samples ! i) (mset (sort_key f [0..<length logits]))"
    by simp
  also have "\<dots> = image_mset (\<lambda>i. samples ! i) (mset [0..<length samples])"
    using len by simp
  also have "\<dots> = mset (map (\<lambda>i. samples ! i) [0..<length samples])"
    by simp
  also have "\<dots> = mset samples"
    by (simp add: map_nth)
  finally show ?thesis .
qed

lemma descending_argsort:
  fixes logits :: "real list"
  shows "sorted_wrt (\<lambda>a b. a \<ge> b) (map (\<lambda>i. logits ! i) (sort_key (\<lambda>i. - (logits ! i)) is))"
proof -
  have "sorted (map (\<lambda>i. - (logits ! i)) (sort_key (\<lambda>i. - (logits ! i)) is))"
    by (rule sorted_sort_key)
  then show ?thesis
    by (simp add: sorted_wrt_map sorted_map)
qed

lemma rank_samples_frame:
  "reward_model (snd (rank_samples lib samples st)) = reward_model st \<and>
   generative_model (snd (rank_samples lib samples st)) = generative_model st \<and>
   stdout (snd (rank_samples lib samples st)) = stdout st"
  by (simp add: rank_samples_def Let_def split: sum.splits prod.splits)

lemma length_argsort_key: "length (sort_key f xs) = length xs"
  by (simp add: length_sort)

text \<open>
  On a list of two or more samples (and on the empty list, if the library accepts it)
  the ranker returns its input reordered, with the rewards of the returned sequence
  descending.
\<close>

lemma rank_samples_sorted_permutation:
  assumes "classify lib (weights (reward_model st)) (training (reward_model st)) (rng st) samples
             = Inr (logits, r')"
    and "length logits = length samples" and "length samples \<noteq> 1"
  shows "\<exists>indices.
           rank_samples lib samples st = (Inr (map (\<lambda>i. samples ! i) indices), st\<lparr>rng := r'\<rparr>) \<and>
           mset (map (\<lambda>i. samples ! i) indices) = mset samples \<and>
           sorted_wrt (\<lambda>a b. a \<ge> b) (map (\<lambda>i. logits ! i) indices)"
  using rank_samples_vector [OF assms] mset_map_argsort [OF assms(2)]
    descending_argsort [of logits "[0..<length logits]"]
  by blast

text \<open>
  C1. The statement that \<open>rank_samples\<close> returns a permutation of every non-empty
  input does not hold for a list of one sample. There the logits have shape \<open>(1, 1)\<close>,
  \<open>.squeeze()\<close> leaves a 0-d tensor, \<open>torch.argsort\<close> returns a 0-d tensor, and the
  list comprehension cannot iterate over it: the call raises \<open>TypeError\<close>. Whatever
  the library returns, the result is never the one-element list itself.
\<close>

theorem rank_samples_single_sample:
  "fst (rank_samples lib [s] st) \<noteq> Inr [s] \<and>
   fst (rank_samples toy_torch [''hello''] toy_notebook) = Inl TypeError"
proof
  show "fst (rank_samples lib [s] st) \<noteq> Inr [s]"
  proof (cases "classify lib (weights (reward_model st)) (training (reward_model st)) (rng st) [s]")
    case (Inl e)
    then show ?thesis
      by (simp add: rank_samples_def)
  next
    case (Inr res)
    obtain logits r' where res: "res = (logits, r')"
      by (cases res)
    show ?thesis
    proof (cases "length logits = 1")
      case True
      then obtain x where "logits = [x]"
        by (cases logits) auto
      with Inr res show ?thesis
        by (simp add: rank_samples_scalar)
    next
      case False
      then have sq: "squeeze logits = Tensor1 logits"
        by (rule squeeze_vector)
      show ?thesis
      proof
        assume eq: "fst (rank_samples lib [s] st) = Inr [s]"
        with Inr res sq have
          "comprehension (getitem [s]) (sort_key (\<lambda>i. - (logits ! i)) [0..<length logits]) = Inr [s]"
          by (simp add: rank_samples_def argsort_descending_def tensor_iter_def)
        then have "length [s] = length (sort_key (\<lambda>i. - (logits ! i)) [0..<length logits])"
          by (rule comprehension_length)
        with False show False
          by (simp add: length_argsort_key)
      qed
    qed
  qed
  show "fst (rank_samples toy_torch [''hello''] toy_notebook) = Inl TypeError"
    by (simp add: rank_samples_def toy_torch_def toy_notebook_def squeeze_def
          argsort_descending_def tensor_iter_def)
qed

text \<open>
  C9. \<open>rank_samples\<close> leaves both models as they were, whether it returns or raises:
  it assigns to neither, it builds no optimizer, and the forward pass only reads the
  reward model. What it does change is the library's random state.
\<close>

theorem rank_samples_leaves_models:
  "reward_model (snd (rank_samples lib samples st)) = reward_model st \<and>
   generative_model (snd (rank_samples lib samples st)) = generative_model st"
  by (simp add: rank_samples_def Let_def split: sum.splits prod.splits)

section \<open>Properties of the fine-tuner\<close>

lemma set_model_frame [simp]:
  "stdout (set_model model m st) = stdout st"
  "rng (set_model model m st) = rng st"
  "get_model model (set_model model m st) = m"
  by (cases model; simp)+

lemma print_line_frame [simp]:
  "stdout (print_line l st) = stdout st @ [l]"
  "rng (print_line l st) = rng st"
  "reward_model (print_line l st) = reward_model st"
  "generative_model (print_line l st) = generative_model st"
  by (simp_all add: print_line_def)

lemma train_samples_stdout:
  "stdout (snd (train_samples lib model dataset optimizer loss st)) = stdout st"
  by (induction dataset arbitrary: optimizer loss st) (auto split: sum.splits)

lemma train_samples_append:
  "train_samples lib model (xs @ ys) optimizer loss st =
     (case train_samples lib model xs optimizer loss st of
        (Inl e, st') \<Rightarrow> (Inl e, st')
      | (Inr (optimizer', loss'), st') \<Rightarrow> train_samples lib model ys optimizer' loss' st')"
  by (induction xs arbitrary: optimizer loss st) (auto split: sum.splits)

lemma lm_step_returnsD:
  assumes "lm_step_returns lib samples" and "sample \<in> set samples"
  obtains l w' optimizer' r' where "lm_step lib w t optimizer r sample = Inr (l, w', optimizer', r')"
proof -
  from assms obtain res where "lm_step lib w t optimizer r sample = Inr res"
    unfolding lm_step_returns_def by blast
  then show thesis
    using that by (cases res) auto
qed

lemma train_samples_returns:
  assumes "lm_step_returns lib samples" and "set dataset \<subseteq> set samples"
  shows "\<exists>optimizer' loss' st'.
           train_samples lib model dataset optimizer loss st = (Inr (optimizer', loss'), st') \<and>
           (dataset = [] \<or> loss' \<noteq> None) \<and> (loss = None \<or> loss' \<noteq> None)"
  using assms(2)
proof (induction dataset arbitrary: optimizer loss st)
  case Nil
  show ?case by (cases loss) auto
next
  case (Cons sample rest)
  from Cons.prems have mem: "sample \<in> set samples" and sub: "set rest \<subseteq> set samples"
    by simp_all
  obtain l w' optimizer1 r' where step:
    "lm_step lib (weights (get_model model st)) (training (get_model model st))
       optimizer (rng st) sample = Inr (l, w', optimizer1, r')"
    using assms(1) mem by (rule lm_step_returnsD)
  define st1 where "st1 = set_model model ((get_model model st)\<lparr>weights := w'\<rparr>) (st\<lparr>rng := r'\<rparr>)"
  obtain optimizer' loss' st' where
    rest: "train_samples lib model rest optimizer1 (Some l) st1 = (Inr (optimizer', loss'), st')"
    and some: "loss' \<noteq> None"
    using Cons.IH [OF sub, of optimizer1 "Some l" st1] by auto
  have "train_samples lib model (sample # rest) optimizer loss st = (Inr (optimizer', loss'), st')"
    using step rest by (simp add: st1_def)
  with some show ?case by blast
qed

lemma epoch_body_returns:
  assumes "lm_step_returns lib samples" and "set dataset \<subseteq> set samples"
    and "dataset \<noteq> [] \<or> loss \<noteq> None"
  shows "\<exists>optimizer' l st'.
           epoch_body lib model dataset epoch optimizer loss st = (Inr (optimizer', Some l), st')"
proof -
  obtain optimizer' loss' st' where
    run: "train_samples lib model dataset optimizer loss st = (Inr (optimizer', loss'), st')"
    and bound: "dataset = [] \<or> loss' \<noteq> None" "loss = None \<or> loss' \<noteq> None"
    using train_samples_returns [OF assms(1,2)] by blast
  from bound assms(3) obtain l where "loss' = Some l"
    by auto
  with run show ?thesis
    by (simp add: epoch_body_def)
qed

lemma epochs_returns:
  assumes "lm_step_returns lib samples" and "set dataset \<subseteq> set samples"
    and "dataset \<noteq> [] \<or> loss \<noteq> None"
  shows "\<exists>st'. epochs lib model dataset es optimizer loss st = (Inr (), st')"
  using assms(3)
proof (induction es arbitrary: optimizer loss st)
  case Nil
  show ?case by simp
next
  case (Cons epoch later)
  obtain optimizer' l st' where
    "epoch_body lib model dataset epoch optimizer loss st = (Inr (optimizer', Some l), st')"
    using epoch_body_returns [OF assms(1,2) Cons.prems] by blast
  then show ?case
    using Cons.IH [of "Some l" optimizer' st'] by simp
qed

lemma fine_tune_model_returns:
  assumes "lm_step_returns lib samples" and "set dataset \<subseteq> set samples" and "dataset \<noteq> []"
  shows "\<exists>st'. fine_tune_model lib model dataset st = (Inr (), st')"
  using epochs_returns [OF assms(1,2), of None] assms(3)
  by (simp add: fine_tune_model_def Let_def)

lemma set_model_print_line:
  "set_model model m (print_line x st) = print_line x (set_model model m st)"
  by (cases model) (simp_all add: print_line_def)

lemma get_model_print_line [simp]:
  "get_model model (print_line x st) = get_model model st"
  by (cases model) simp_all

lemma rng_update_print_line:
  "(print_line x st)\<lparr>rng := r\<rparr> = print_line x (st\<lparr>rng := r\<rparr>)"
  by (simp add: print_line_def)

lemma train_samples_print_line:
  "train_samples lib model dataset optimizer loss (print_line x st) =
     (case train_samples lib model dataset optimizer loss st of
        (res, st') \<Rightarrow> (res, print_line x st'))"
  by (induction dataset arbitrary: optimizer loss st)
     (auto split: sum.splits simp: set_model_print_line rng_update_print_line)

lemma train_samples_bound:
  "train_samples lib model dataset optimizer loss st = (Inr (optimizer', loss'), st') \<Longrightarrow>
     dataset \<noteq> [] \<or> loss \<noteq> None \<Longrightarrow> \<exists>l. loss' = Some l"
proof (induction dataset arbitrary: optimizer loss st)
  case Nil
  then show ?case by auto
next
  case (Cons sample rest)
  from Cons.prems(1) obtain l w' optimizer1 r' where
    "train_samples lib model rest optimizer1 (Some l)
       (set_model model ((get_model model st)\<lparr>weights := w'\<rparr>) (st\<lparr>rng := r'\<rparr>))
     = (Inr (optimizer', loss'), st')"
    by (auto split: sum.splits)
  then show ?case
    by (rule Cons.IH) simp
qed

lemma train_samples_some:
  "train_samples lib model dataset optimizer loss st = (Inr (optimizer', loss'), st') \<Longrightarrow>
     dataset \<noteq> [] \<Longrightarrow> \<exists>l. loss' = Some l"
  using train_samples_bound [of lib model dataset optimizer loss st optimizer' loss' st']
  by blast

lemma train_samples_append_ok:
  assumes "train_samples lib model (xs @ ys) optimizer loss st = (Inr res, st')"
  obtains optimizer1 loss1 st1 where
    "train_samples lib model xs optimizer loss st = (Inr (optimizer1, loss1), st1)"
    "train_samples lib model ys optimizer1 loss1 st1 = (Inr res, st')"
proof (cases "train_samples lib model xs optimizer loss st")
  case (Pair r st1)
  show thesis
  proof (cases r)
    case (Inl e)
    with Pair assms show thesis
      by (simp add: train_samples_append)
  next
    case (Inr p)
    obtain optimizer1 loss1 where "p = (optimizer1, loss1)"
      by (cases p)
    with Inr Pair assms that show thesis
      by (simp add: train_samples_append)
  qed
qed

lemma fine_tune_model_three_epochs:
  assumes "dataset \<noteq> []"
    and "train_samples lib model (dataset @ dataset @ dataset)
           (AdamW lib (weights (get_model model st)) (1 / 100000)) None
           (set_model model ((get_model model st)\<lparr>training := True\<rparr>) st)
         = (Inr (optimizer', loss'), st')"
  shows "\<exists>l1 l2 l3. fine_tune_model lib model dataset st =
           (Inr (), st'\<lparr>stdout := stdout st @ [FineTuneLossLine 1 l1, FineTuneLossLine 2 l2,
                                               FineTuneLossLine 3 l3]\<rparr>)"
proof -
  let ?st0 = "set_model model ((get_model model st)\<lparr>training := True\<rparr>) st"
  let ?opt0 = "AdamW lib (weights (get_model model st)) (1 / 100000)"
  from assms(2) obtain o1 L1 s1 where
    r1: "train_samples lib model dataset ?opt0 None ?st0 = (Inr (o1, L1), s1)"
    and r23: "train_samples lib model (dataset @ dataset) o1 L1 s1 = (Inr (optimizer', loss'), st')"
    by (rule train_samples_append_ok)
  from r23 obtain o2 L2 s2 where
    r2: "train_samples lib model dataset o1 L1 s1 = (Inr (o2, L2), s2)"
    and r3: "train_samples lib model dataset o2 L2 s2 = (Inr (optimizer', loss'), st')"
    by (rule train_samples_append_ok)
  obtain l1 where L1: "L1 = Some l1"
    using train_samples_some [OF r1 assms(1)] by blast
  obtain l2 where L2: "L2 = Some l2"
    using train_samples_some [OF r2 assms(1)] by blast
  obtain l3 where L3: "loss' = Some l3"
    using train_samples_some [OF r3 assms(1)] by blast
  have out: "stdout st' = stdout st"
    using train_samples_stdout [of lib model "dataset @ dataset @ dataset" ?opt0 None ?st0]
      assms(2) by simp
  have e1: "epoch_body lib model dataset 0 ?opt0 None ?st0 =
      (Inr (o1, Some l1), print_line (FineTuneLossLine 1 l1) s1)"
    using r1 L1 by (simp add: epoch_body_def)
  have e2: "epoch_body lib model dataset 1 o1 (Some l1) (print_line (FineTuneLossLine 1 l1) s1) =
      (Inr (o2, Some l2), print_line (FineTuneLossLine 2 l2) (print_line (FineTuneLossLine 1 l1) s2))"
    using r2 L1 L2 by (simp add: epoch_body_def train_samples_print_line)
  have e3: "epoch_body lib model dataset 2 o2 (Some l2)
        (print_line (FineTuneLossLine 2 l2) (print_line (FineTuneLossLine 1 l1) s2)) =
      (Inr (optimizer', Some l3),
       print_line (FineTuneLossLine 3 l3)
         (print_line (FineTuneLossLine 2 l2) (print_line (FineTuneLossLine 1 l1) st')))"
    using r3 L2 L3 by (simp add: epoch_body_def train_samples_print_line)
  have "[0..<3] = [0, 1, 2]"
    by (simp add: upt_conv_Cons)
  then have "fine_tune_model lib model dataset st =
      (Inr (), print_line (FineTuneLossLine 3 l3)
         (print_line (FineTuneLossLine 2 l2) (print_line (FineTuneLossLine 1 l1) st')))"
    using e1 e2 e3 by (simp add: fine_tune_model_def Let_def)
  also have "print_line (FineTuneLossLine 3 l3)
         (print_line (FineTuneLossLine 2 l2) (print_line (FineTuneLossLine 1 l1) st'))
       = st'\<lparr>stdout := stdout st @ [FineTuneLossLine 1 l1, FineTuneLossLine 2 l2,
                                     FineTuneLossLine 3 l3]\<rparr>"
    by (simp add: print_line_def out)
  finally show ?thesis by blast
qed

text \<open>
  A failure of the fine-tuning step leaves \<open>fine_tune_model\<close> as it is, at whatever
  sample of whatever epoch it is raised, in the state of the failing step and with the
  loss lines of the epochs completed before it.
\<close>

lemma train_samples_raises_at:
  assumes "train_samples lib model pre optimizer loss st = (Inr (optimizer1, loss1), st1)"
    and "lm_step lib (weights (get_model model st1)) (training (get_model model st1))
           optimizer1 (rng st1) sample = Inl e"
  shows "train_samples lib model (pre @ sample # post) optimizer loss st = (Inl e, st1)"
  using assms by (simp add: train_samples_append)

lemma epochs_raises:
  assumes "train_samples lib model (concat (replicate (length es) dataset)) optimizer loss st
             = (Inl e, st1)"
    and "dataset \<noteq> [] \<or> loss \<noteq> None"
  shows "\<exists>lines. epochs lib model dataset es optimizer loss st
                    = (Inl e, st1\<lparr>stdout := stdout st @ lines\<rparr>) \<and>
                 (\<forall>n. IterationLine n \<notin> set lines)"
  using assms
proof (induction es arbitrary: optimizer loss st st1)
  case Nil
  then show ?case by simp
next
  case (Cons epoch later)
  from Cons.prems(1) have whole:
    "train_samples lib model (dataset @ concat (replicate (length later) dataset)) optimizer loss st
       = (Inl e, st1)"
    by simp
  obtain res sa where first: "train_samples lib model dataset optimizer loss st = (res, sa)"
    by (cases "train_samples lib model dataset optimizer loss st")
  show ?case
  proof (cases res)
    case (Inl e')
    with first whole have eq: "e' = e" "sa = st1"
      by (simp_all add: train_samples_append)
    have "stdout st1 = stdout st"
      using train_samples_stdout [of lib model dataset optimizer loss st] first eq by simp
    then have "st1\<lparr>stdout := stdout st @ []\<rparr> = st1"
      by simp
    moreover have "epochs lib model dataset (epoch # later) optimizer loss st = (Inl e, st1)"
      using first Inl eq by (simp add: epoch_body_def)
    ultimately show ?thesis
      by (intro exI [of _ "[]"]) simp
  next
    case (Inr p)
    obtain o1 L1 where p: "p = (o1, L1)"
      by (cases p)
    from first Inr p have ok: "train_samples lib model dataset optimizer loss st = (Inr (o1, L1), sa)"
      by simp
    then obtain l where L1: "L1 = Some l"
      using train_samples_bound [OF ok Cons.prems(2)] by blast
    have out: "stdout sa = stdout st"
      using train_samples_stdout [of lib model dataset optimizer loss st] ok by simp
    let ?p = "FineTuneLossLine (epoch + 1) l"
    from whole ok L1 have
      "train_samples lib model (concat (replicate (length later) dataset)) o1 (Some l) sa
         = (Inl e, st1)"
      by (simp add: train_samples_append)
    then have "train_samples lib model (concat (replicate (length later) dataset)) o1 (Some l)
                 (print_line ?p sa) = (Inl e, print_line ?p st1)"
      by (simp add: train_samples_print_line)
    from Cons.IH [OF this] obtain lines where
      rest: "epochs lib model dataset later o1 (Some l) (print_line ?p sa)
               = (Inl e, (print_line ?p st1)\<lparr>stdout := stdout (print_line ?p sa) @ lines\<rparr>)"
      and none: "\<forall>n. IterationLine n \<notin> set lines"
      by auto
    have "(print_line ?p st1)\<lparr>stdout := stdout (print_line ?p sa) @ lines\<rparr>
            = st1\<lparr>stdout := stdout st @ (?p # lines)\<rparr>"
      by (simp add: print_line_def out)
    with rest ok L1 have
      "epochs lib model dataset (epoch # later) optimizer loss st
         = (Inl e, st1\<lparr>stdout := stdout st @ (?p # lines)\<rparr>)"
      by (simp add: epoch_body_def)
    with none show ?thesis
      by (intro exI [of _ "?p # lines"]) simp
  qed
qed

lemma fine_tune_model_raises:
  assumes "dataset @ dataset @ dataset = pre @ sample # post"
    and "train_samples lib model pre (AdamW lib (weights (get_model model st)) (1 / 100000)) None
           (set_model model ((get_model model st)\<lparr>training := True\<rparr>) st)
         = (Inr (optimizer1, loss1), st1)"
    and "lm_step lib (weights (get_model model st1)) (training (get_model model st1))
           optimizer1 (rng st1) sample = Inl e"
  shows "\<exists>lines. fine_tune_model lib model dataset st
                    = (Inl e, st1\<lparr>stdout := stdout st @ lines\<rparr>) \<and>
                 (\<forall>n. IterationLine n \<notin> set lines)"
proof -
  let ?st0 = "set_model model ((get_model model st)\<lparr>training := True\<rparr>) st"
  let ?opt0 = "AdamW lib (weights (get_model model st)) (1 / 100000)"
  from assms(1) have nonempty: "dataset \<noteq> []"
    by auto
  have "train_samples lib model (pre @ sample # post) ?opt0 None ?st0 = (Inl e, st1)"
    using assms(2,3) by (rule train_samples_raises_at)
  with assms(1) have
    "train_samples lib model (concat (replicate (length [0..<3]) dataset)) ?opt0 None ?st0
       = (Inl e, st1)"
    by (simp add: numeral_3_eq_3)
  from epochs_raises [OF this] nonempty obtain lines where
    "epochs lib model dataset [0..<3] ?opt0 None ?st0 = (Inl e, st1\<lparr>stdout := stdout ?st0 @ lines\<rparr>)"
    and "\<forall>n. IterationLine n \<notin> set lines"
    by blast
  then show ?thesis
    by (auto simp: fine_tune_model_def Let_def)
qed

text \<open>
  One pass of the outer loop on a dataset that is not empty: the line it prints carries
  the loss of the step on the last sample.
\<close>

lemma epochs_step_last_sample:
  assumes "dataset \<noteq> []"
    and "train_samples lib model (butlast dataset) optimizer loss st
           = (Inr (optimizer1, loss1), st1)"
    and "lm_step lib (weights (get_model model st1)) (training (get_model model st1))
           optimizer1 (rng st1) (last dataset) = Inr (l, w', optimizer', r')"
  shows "epochs lib model dataset (epoch # later) optimizer loss st =
           epochs lib model dataset later optimizer' (Some l)
             (print_line (FineTuneLossLine (epoch + 1) l)
                (set_model model ((get_model model st1)\<lparr>weights := w'\<rparr>) (st1\<lparr>rng := r'\<rparr>)))"
proof -
  have "dataset = butlast dataset @ [last dataset]"
    using assms(1) by simp
  then have "train_samples lib model dataset optimizer loss st =
      (case train_samples lib model (butlast dataset) optimizer loss st of
         (Inl e, st') \<Rightarrow> (Inl e, st')
       | (Inr (optimizer', loss'), st') \<Rightarrow>
           train_samples lib model [last dataset] optimizer' loss' st')"
    by (metis train_samples_append)
  with assms(2,3) have "train_samples lib model dataset optimizer loss st =
      (Inr (optimizer', Some l),
       set_model model ((get_model model st1)\<lparr>weights := w'\<rparr>) (st1\<lparr>rng := r'\<rparr>))"
    by simp
  then show ?thesis
    by (simp add: epoch_body_def)
qed

text \<open>
  C4. On an empty dataset the inner loop never assigns \<open>loss\<close>, and the \<open>print\<close> of
  the first epoch reads it: \<open>fine_tune_model\<close> raises \<open>UnboundLocalError\<close> after
  \<open>model.train()\<close>, without completing an epoch and without returning \<open>None\<close>. On
  a dataset that is not empty it runs three epochs in order, as
  \<open>fine_tune_model_three_epochs\<close> states.
\<close>

theorem fine_tune_model_empty_dataset:
  "fine_tune_model lib model [] st =
     (Inl UnboundLocalError, set_model model ((get_model model st)\<lparr>training := True\<rparr>) st)"
  by (simp add: fine_tune_model_def Let_def upt_conv_Cons epoch_body_def)

text \<open>
  C10. The loss \<open>fine_tune_model\<close> reports after each epoch is the loss of the last
  sample of the dataset in that epoch. For a dataset that is not empty, follow the three
  epochs: in epoch \<open>j\<close> the inner loop over all but the last sample leaves the optimizer
  \<open>oaj\<close> and the state \<open>saj\<close>, the step on the last sample there returns the loss
  \<open>lj\<close>, and \<open>sbj\<close> is the state after that step and the \<open>print\<close>. Then
  \<open>fine_tune_model\<close> returns \<open>None\<close> in \<open>sb3\<close>, and what it has printed is exactly
  the three lines with \<open>l1\<close>, \<open>l2\<close>, \<open>l3\<close>: the losses of the earlier samples, and
  any average or sum of an epoch's losses, do not enter them.
\<close>

theorem fine_tune_model_reports_last_sample_loss:
  assumes "dataset \<noteq> []"
    and "train_samples lib model (butlast dataset)
           (AdamW lib (weights (get_model model st)) (1 / 100000)) None
           (set_model model ((get_model model st)\<lparr>training := True\<rparr>) st)
         = (Inr (oa1, la1), sa1)"
    and "lm_step lib (weights (get_model model sa1)) (training (get_model model sa1))
           oa1 (rng sa1) (last dataset) = Inr (l1, w1, ob1, r1)"
    and "sb1 = print_line (FineTuneLossLine 1 l1)
                 (set_model model ((get_model model sa1)\<lparr>weights := w1\<rparr>) (sa1\<lparr>rng := r1\<rparr>))"
    and "train_samples lib model (butlast dataset) ob1 (Some l1) sb1 = (Inr (oa2, la2), sa2)"
    and "lm_step lib (weights (get_model model sa2)) (training (get_model model sa2))
           oa2 (rng sa2) (last dataset) = Inr (l2, w2, ob2, r2)"
    and "sb2 = print_line (FineTuneLossLine 2 l2)
                 (set_model model ((get_model model sa2)\<lparr>weights := w2\<rparr>) (sa2\<lparr>rng := r2\<rparr>))"
    and "train_samples lib model (butlast dataset) ob2 (Some l2) sb2 = (Inr (oa3, la3), sa3)"
    and "lm_step lib (weights (get_model model sa3)) (training (get_model model sa3))
           oa3 (rng sa3) (last dataset) = Inr (l3, w3, ob3, r3)"
    and "sb3 = print_line (FineTuneLossLine 3 l3)
                 (set_model model ((get_model model sa3)\<lparr>weights := w3\<rparr>) (sa3\<lparr>rng := r3\<rparr>))"
  shows "fine_tune_model lib model dataset st = (Inr (), sb3) \<and>
         stdout sb3 = stdout st @ [FineTuneLossLine 1 l1, FineTuneLossLine 2 l2, FineTuneLossLine 3 l3]"
proof -
  let ?st0 = "set_model model ((get_model model st)\<lparr>training := True\<rparr>) st"
  let ?opt0 = "AdamW lib (weights (get_model model st)) (1 / 100000)"
  have ar: "(0::nat) + 1 = 1" "(1::nat) + 1 = 2" "(2::nat) + 1 = 3"
    by simp_all
  have "epochs lib model dataset [0, 1, 2] ?opt0 None ?st0
          = epochs lib model dataset [1, 2] ob1 (Some l1) sb1"
    unfolding assms(4)
    using epochs_step_last_sample [OF assms(1,2,3), of 0 "[1, 2]"] by (simp only: ar)
  also have "\<dots> = epochs lib model dataset [2] ob2 (Some l2) sb2"
    unfolding assms(7)
    using epochs_step_last_sample [OF assms(1,5,6), of 1 "[2]"] by (simp only: ar)
  also have "\<dots> = epochs lib model dataset [] ob3 (Some l3) sb3"
    unfolding assms(10)
    using epochs_step_last_sample [OF assms(1,8,9), of 2 "[]"] by (simp only: ar)
  finally have run: "epochs lib model dataset [0, 1, 2] ?opt0 None ?st0 = (Inr (), sb3)"
    by simp
  have "[0..<3] = [0, 1, 2]"
    by (simp add: upt_conv_Cons)
  with run have ft: "fine_tune_model lib model dataset st = (Inr (), sb3)"
    by (simp add: fine_tune_model_def Let_def)
  have o1: "stdout sa1 = stdout st"
    using train_samples_stdout [of lib model "butlast dataset" ?opt0 None ?st0] assms(2) by simp
  have o2: "stdout sa2 = stdout sb1"
    using train_samples_stdout [of lib model "butlast dataset" ob1 "Some l1" sb1] assms(5) by simp
  have o3: "stdout sa3 = stdout sb2"
    using train_samples_stdout [of lib model "butlast dataset" ob2 "Some l2" sb2] assms(8) by simp
  have "stdout sb3 = stdout st @ [FineTuneLossLine 1 l1, FineTuneLossLine 2 l2, FineTuneLossLine 3 l3]"
    by (simp add: assms(4,7,10) o1 o2 o3)
  with ft show ?thesis by blast
qed

text \<open>
  On the small library and the dataset \<open>ab\<close>, \<open>c\<close> the losses of the three epochs
  are 12 and 10, 10 and 8, 8 and 6; the lines report 10, 8 and 6.
\<close>

theorem fine_tune_model_reports_last_sample_loss_witness:
  "[''ab'', ''c''] \<noteq> [] \<and>
   lm_step toy_torch 10 True 0 0 ''ab'' = Inr (12, 9, 1, 1) \<and>
   lm_step toy_torch 9 True 1 1 (last [''ab'', ''c'']) = Inr (10, 8, 2, 2) \<and>
   lm_step toy_torch 8 True 2 2 ''ab'' = Inr (10, 7, 3, 3) \<and>
   lm_step toy_torch 7 True 3 3 (last [''ab'', ''c'']) = Inr (8, 6, 4, 4) \<and>
   lm_step toy_torch 6 True 4 4 ''ab'' = Inr (8, 5, 5, 5) \<and>
   lm_step toy_torch 5 True 5 5 (last [''ab'', ''c'']) = Inr (6, 4, 6, 6) \<and>
   fine_tune_model toy_torch Generative_model [''ab'', ''c''] toy_notebook =
     (Inr (),
      \<lparr>reward_model = \<lparr>weights = 5, training = False\<rparr>,
       generative_model = \<lparr>weights = 4, training = True\<rparr>,
       rng = 6,
       stdout = [FineTuneLossLine 1 10, FineTuneLossLine 2 8, FineTuneLossLine 3 6]\<rparr>)"
proof -
  let ?nb = "\<lambda>w r out. \<lparr>reward_model = \<lparr>weights = 5, training = False\<rparr>,
       generative_model = \<lparr>weights = w, training = True\<rparr>,
       rng = r, stdout = out\<rparr> :: (int, nat) notebook"
  have h1: "[''ab'', ''c''] \<noteq> []"
    by simp
  have steps:
    "lm_step toy_torch 10 True 0 0 ''ab'' = Inr (12, 9, 1, 1)"
    "lm_step toy_torch 9 True 1 1 (last [''ab'', ''c'']) = Inr (10, 8, 2, 2)"
    "lm_step toy_torch 8 True 2 2 ''ab'' = Inr (10, 7, 3, 3)"
    "lm_step toy_torch 7 True 3 3 (last [''ab'', ''c'']) = Inr (8, 6, 4, 4)"
    "lm_step toy_torch 6 True 4 4 ''ab'' = Inr (8, 5, 5, 5)"
    "lm_step toy_torch 5 True 5 5 (last [''ab'', ''c'']) = Inr (6, 4, 6, 6)"
    by (simp_all add: toy_torch_def)
  have e1a: "train_samples toy_torch Generative_model (butlast [''ab'', ''c''])
        (AdamW toy_torch (weights (get_model Generative_model toy_notebook)) (1 / 100000)) None
        (set_model Generative_model ((get_model Generative_model toy_notebook)\<lparr>training := True\<rparr>)
           toy_notebook)
      = (Inr (1, Some 12), ?nb 9 1 [])"
    by (simp add: toy_torch_def toy_notebook_def)
  have e1b: "lm_step toy_torch (weights (get_model Generative_model (?nb 9 1 [])))
        (training (get_model Generative_model (?nb 9 1 []))) 1 (rng (?nb 9 1 []))
        (last [''ab'', ''c'']) = Inr (10, 8, 2, 2)"
    by (simp add: toy_torch_def)
  have s1: "?nb 8 2 [FineTuneLossLine 1 10] = print_line (FineTuneLossLine 1 10)
      (set_model Generative_model ((get_model Generative_model (?nb 9 1 []))\<lparr>weights := 8\<rparr>)
         ((?nb 9 1 [])\<lparr>rng := 2\<rparr>))"
    by (simp add: print_line_def)
  have e2a: "train_samples toy_torch Generative_model (butlast [''ab'', ''c'']) 2 (Some 10)
        (?nb 8 2 [FineTuneLossLine 1 10])
      = (Inr (3, Some 10), ?nb 7 3 [FineTuneLossLine 1 10])"
    by (simp add: toy_torch_def)
  have e2b: "lm_step toy_torch (weights (get_model Generative_model (?nb 7 3 [FineTuneLossLine 1 10])))
        (training (get_model Generative_model (?nb 7 3 [FineTuneLossLine 1 10]))) 3
        (rng (?nb 7 3 [FineTuneLossLine 1 10]))
        (last [''ab'', ''c'']) = Inr (8, 6, 4, 4)"
    by (simp add: toy_torch_def)
  have s2: "?nb 6 4 [FineTuneLossLine 1 10, FineTuneLossLine 2 8] = print_line (FineTuneLossLine 2 8)
      (set_model Generative_model
         ((get_model Generative_model (?nb 7 3 [FineTuneLossLine 1 10]))\<lparr>weights := 6\<rparr>)
         ((?nb 7 3 [FineTuneLossLine 1 10])\<lparr>rng := 4\<rparr>))"
    by (simp add: print_line_def)
  have e3a: "train_samples toy_torch Generative_model (butlast [''ab'', ''c'']) 4 (Some 8)
        (?nb 6 4 [FineTuneLossLine 1 10, FineTuneLossLine 2 8])
      = (Inr (5, Some 8), ?nb 5 5 [FineTuneLossLine 1 10, FineTuneLossLine 2 8])"
    by (simp add: toy_torch_def)
  have e3b: "lm_step toy_torch
        (weights (get_model Generative_model (?nb 5 5 [FineTuneLossLine 1 10, FineTuneLossLine 2 8])))
        (training (get_model Generative_model (?nb 5 5 [FineTuneLossLine 1 10, FineTuneLossLine 2 8])))
        5 (rng (?nb 5 5 [FineTuneLossLine 1 10, FineTuneLossLine 2 8]))
        (last [''ab'', ''c'']) = Inr (6, 4, 6, 6)"
    by (simp add: toy_torch_def)
  have s3: "?nb 4 6 [FineTuneLossLine 1 10, FineTuneLossLine 2 8, FineTuneLossLine 3 6]
      = print_line (FineTuneLossLine 3 6)
          (set_model Generative_model
             ((get_model Generative_model
                 (?nb 5 5 [FineTuneLossLine 1 10, FineTuneLossLine 2 8]))\<lparr>weights := 4\<rparr>)
             ((?nb 5 5 [FineTuneLossLine 1 10, FineTuneLossLine 2 8])\<lparr>rng := 6\<rparr>))"
    by (simp add: print_line_def)
  from fine_tune_model_reports_last_sample_loss [OF h1 e1a e1b s1 e2a e2b s2 e3a e3b s3]
  have "fine_tune_model toy_torch Generative_model [''ab'', ''c''] toy_notebook =
     (Inr (), ?nb 4 6 [FineTuneLossLine 1 10, FineTuneLossLine 2 8, FineTuneLossLine 3 6])"
    by blast
  with h1 steps show ?thesis
    by blast
qed

section \<open>Properties of the iteration driver\<close>


lemma generated_default:
  "generate_samples prompt num_samples_default =
     [''Generated response 0 for What is artificial intelligence?'',
      ''Generated response 1 for What is artificial intelligence?'',
      ''Generated response 2 for What is artificial intelligence?'',
      ''Generated response 3 for What is artificial intelligence?'',
      ''Generated response 4 for What is artificial intelligence?'']"
  by (simp add: generate_samples_def num_samples_default_def prompt_def range_py_def
        upt_conv_Cons str_def str_nat.simps digit_def)

lemma rank_samples_returns:
  assumes "classify_returns lib samples" and "length samples \<noteq> 1"
  shows "\<exists>ranked st'. rank_samples lib samples st = (Inr ranked, st') \<and>
           mset ranked = mset samples"
proof -
  obtain logits r' where
    c: "classify lib (weights (reward_model st)) (training (reward_model st)) (rng st) samples
          = Inr (logits, r')"
    and len: "length logits = length samples"
    using assms(1) unfolding classify_returns_def by blast
  show ?thesis
    using rank_samples_vector [OF c len assms(2)] mset_map_argsort [OF len] by simp
qed

lemma raft_iteration_returns:
  assumes "classify_returns lib (generate_samples prompt 5)"
    and "lm_step_returns lib (generate_samples prompt 5)"
  shows "\<exists>ranked r st'.
           rank_samples lib (generate_samples prompt 5)
             (print_line (IterationLine (k + 1)) st) = (Inr ranked, r) \<and>
           fine_tune_model lib Generative_model (take 3 ranked) r = (Inr (), st') \<and>
           raft_iteration lib k st = (Inr (), st')"
proof -
  have "length (generate_samples prompt 5) \<noteq> 1"
    by (simp add: length_generate_samples)
  then obtain ranked r where
    rk: "rank_samples lib (generate_samples prompt 5)
           (print_line (IterationLine (k + 1)) st) = (Inr ranked, r)"
    and perm: "mset ranked = mset (generate_samples prompt 5)"
    using rank_samples_returns [OF assms(1)] by blast
  from perm have "length ranked = 5"
    by (metis length_generate_samples nat_numeral size_mset)
  then have nonempty: "take 3 ranked \<noteq> []"
    by auto
  from perm have "set ranked = set (generate_samples prompt 5)"
    by (rule mset_eq_setD)
  then have sub: "set (take 3 ranked) \<subseteq> set (generate_samples prompt 5)"
    using set_take_subset [of 3 ranked] by simp
  obtain st' where
    ft: "fine_tune_model lib Generative_model (take 3 ranked) r = (Inr (), st')"
    using fine_tune_model_returns [OF assms(2) sub nonempty] by blast
  from rk ft have "raft_iteration lib k st = (Inr (), st')"
    by (simp add: raft_iteration_def num_samples_default_def)
  with rk ft show ?thesis by blast
qed

lemma raft_iterations_chain:
  assumes "\<And>k. raft_iteration lib k (S k) = (Inr (), S (Suc k))"
  shows "raft_iterations lib [a..<a + n] (S a) = (Inr (), S (a + n))"
proof (induction n arbitrary: a)
  case 0
  show ?case by simp
next
  case (Suc n)
  have "[a..<a + Suc n] = a # [Suc a..<Suc a + n]"
    by (simp add: upt_conv_Cons)
  then show ?case
    using assms [of a] Suc [of "Suc a"] by simp
qed

text \<open>
  C3. Let the library return on the five generated samples: one logit each from the
  forward pass of the reward model, and a result from the fine-tuning step on each of
  them. Then the driver runs its body exactly five times, for
  \<open>iteration = 0, \<dots>, 4\<close>, whatever values the calls return: there are states
  \<open>S 0, \<dots>, S 5\<close>, from the initial one to the final one, such that iteration \<open>k\<close>
  prints its line in \<open>S k\<close>, ranks the freshly generated samples, fine-tunes the
  generative model on the first three of the ranking, and leaves \<open>S (k + 1)\<close>. The
  loop ends with \<open>None\<close> after the fifth; no result of a call is inspected to stop
  earlier or to go on.
\<close>

theorem raft_loop_five_iterations:
  assumes "classify_returns lib (generate_samples prompt num_samples_default)"
    and "lm_step_returns lib (generate_samples prompt num_samples_default)"
  shows "\<exists>S. S 0 = st \<and> raft_loop lib st = (Inr (), S 5) \<and>
           (\<forall>k<5. \<exists>ranked r.
              rank_samples lib (generate_samples prompt num_samples_default)
                (print_line (IterationLine (k + 1)) (S k)) = (Inr ranked, r) \<and>
              fine_tune_model lib Generative_model (take 3 ranked) r = (Inr (), S (Suc k)))"
proof -
  from assms have c: "classify_returns lib (generate_samples prompt 5)"
    and l: "lm_step_returns lib (generate_samples prompt 5)"
    by (simp_all add: num_samples_default_def)
  define S where "S = rec_nat st (\<lambda>k s. snd (raft_iteration lib k s))"
  have S0: "S 0 = st" and SS: "\<And>k. S (Suc k) = snd (raft_iteration lib k (S k))"
    by (simp_all add: S_def)
  have step: "\<exists>ranked r.
      rank_samples lib (generate_samples prompt 5)
        (print_line (IterationLine (k + 1)) (S k)) = (Inr ranked, r) \<and>
      fine_tune_model lib Generative_model (take 3 ranked) r = (Inr (), S (Suc k)) \<and>
      raft_iteration lib k (S k) = (Inr (), S (Suc k))" for k
    using raft_iteration_returns [OF c l, of k "S k"] by (auto simp: SS)
  then have "raft_iterations lib [0..<0 + 5] (S 0) = (Inr (), S (0 + 5))"
    by (intro raft_iterations_chain) blast
  then have "raft_loop lib st = (Inr (), S 5)"
    by (simp add: raft_loop_def S0)
  with S0 step show ?thesis
    unfolding num_samples_default_def by blast
qed

text \<open>
  The hypotheses hold of a library that raises on the empty batch and on a sample
  longer than the five generated ones, and the loop runs to its end on it.
\<close>

theorem raft_loop_five_iterations_witness:
  "classify_returns partial_torch (generate_samples prompt num_samples_default) \<and>
   lm_step_returns partial_torch (generate_samples prompt num_samples_default) \<and>
   classify partial_torch 5 False 0 [] = Inl (LibraryError ''empty batch'') \<and>
   fst (raft_loop partial_torch toy_notebook) = Inr ()"
proof -
  have c: "classify_returns partial_torch (generate_samples prompt num_samples_default)"
    by (simp add: classify_returns_def partial_torch_def toy_torch_def generated_default)
  have l: "lm_step_returns partial_torch (generate_samples prompt num_samples_default)"
    by (simp add: lm_step_returns_def partial_torch_def toy_torch_def generated_default)
  have e: "classify partial_torch 5 False 0 [] = Inl (LibraryError ''empty batch'')"
    by (simp add: partial_torch_def)
  from raft_loop_five_iterations [OF c l, of toy_notebook]
  obtain S :: "nat \<Rightarrow> (int, nat) notebook"
    where "raft_loop partial_torch toy_notebook = (Inr (), S 5)"
    by blast
  then have "fst (raft_loop partial_torch toy_notebook) = Inr ()"
    by simp
  with c l e show ?thesis by blast
qed

lemma raft_iterations_append:
  "raft_iterations lib (xs @ ys) st =
     (case raft_iterations lib xs st of
        (Inl e, s') \<Rightarrow> (Inl e, s')
      | (Inr u, s') \<Rightarrow> raft_iterations lib ys s')"
  by (induction xs arbitrary: st) (auto split: sum.splits prod.splits)

lemma raft_loop_stops_at_failure:
  assumes "k < 5"
    and "raft_iterations lib [0..<k] st = (Inr (), s)"
    and "raft_iteration lib k s = (Inl e, s')"
  shows "raft_loop lib st = (Inl e, s')"
proof -
  have "[0..<5] = [0..<k] @ k # [Suc k..<5]"
    using assms(1) by (metis less_imp_le_nat upt_add_eq_append le_add_diff_inverse upt_conv_Cons zero_le)
  then show ?thesis
    using assms(2,3) by (simp add: raft_loop_def raft_iterations_append)
qed

lemma lm_step_failing_first_iteration:
  "raft_iterations lm_step_failing_torch [0..<1] toy_notebook =
     (Inr (),
      \<lparr>reward_model = \<lparr>weights = 5, training = False\<rparr>,
       generative_model = \<lparr>weights = 1, training = True\<rparr>,
       rng = 9,
       stdout = [IterationLine 1, FineTuneLossLine 1 65, FineTuneLossLine 2 62,
                 FineTuneLossLine 3 59]\<rparr>)"
  by (simp add: raft_iteration_def generated_default rank_samples_def lm_step_failing_torch_def
        toy_torch_def toy_notebook_def squeeze_def argsort_descending_def tensor_iter_def
        upt_conv_Cons getitem_def fine_tune_model_def epoch_body_def print_line_def Let_def)

text \<open>
  C7. No operation of the pipeline catches an exception. Let the first \<open>k\<close>
  iterations (\<open>k < 5\<close>) have completed in state \<open>s\<close>, and let \<open>s1\<close> be \<open>s\<close> after
  the iteration's \<open>print\<close>.
  \<^item> If the forward pass inside \<open>rank_samples\<close> raises \<open>e\<close>, the loop ends with \<open>e\<close>
    in \<open>s1\<close>.
  \<^item> Whatever \<open>rank_samples\<close> raises, by the library or by Python, the loop ends with
    it in the state of the raise.
  \<^item> If \<open>rank_samples\<close> returns and the fine-tuning step inside \<open>fine_tune_model\<close>
    raises \<open>e\<close> at any sample of any of the three epochs (the samples before it, \<open>pre\<close>,
    having been trained on), the loop ends with \<open>e\<close>; its final state is that of the
    failing step, and after the ranking nothing but loss lines of completed epochs has
    been printed, no line of a later iteration.
  \<^item> Whatever \<open>fine_tune_model\<close> raises, the loop ends with it in the state of the
    raise.
  Nothing is retried and no later iteration runs. \<open>generate_samples\<close> on a string and
  an integer cannot raise.
\<close>

theorem raft_loop_propagates_exception:
  assumes "k < 5"
    and "raft_iterations lib [0..<k] st = (Inr (), s)"
    and "s1 = print_line (IterationLine (k + 1)) s"
    and "samples = generate_samples prompt num_samples_default"
  shows
    "(classify lib (weights (reward_model s1)) (training (reward_model s1)) (rng s1) samples = Inl e
        \<longrightarrow> raft_loop lib st = (Inl e, s1)) \<and>
     (rank_samples lib samples s1 = (Inl e, s')
        \<longrightarrow> raft_loop lib st = (Inl e, s')) \<and>
     (rank_samples lib samples s1 = (Inr ranked, s2) \<and>
      take 3 ranked @ take 3 ranked @ take 3 ranked = pre @ sample # post \<and>
      train_samples lib Generative_model pre
        (AdamW lib (weights (generative_model s2)) (1 / 100000)) None
        (s2\<lparr>generative_model := (generative_model s2)\<lparr>training := True\<rparr>\<rparr>)
        = (Inr (optimizer1, loss1), s3) \<and>
      lm_step lib (weights (generative_model s3)) (training (generative_model s3))
        optimizer1 (rng s3) sample = Inl e
        \<longrightarrow> (\<exists>lines. raft_loop lib st = (Inl e, s3\<lparr>stdout := stdout s2 @ lines\<rparr>) \<and>
                     (\<forall>n. IterationLine n \<notin> set lines))) \<and>
     (rank_samples lib samples s1 = (Inr ranked, s2) \<and>
      fine_tune_model lib Generative_model (take 3 ranked) s2 = (Inl e, s')
        \<longrightarrow> raft_loop lib st = (Inl e, s'))"
proof (intro conjI impI)
  assume "classify lib (weights (reward_model s1)) (training (reward_model s1)) (rng s1) samples
            = Inl e"
  then have "rank_samples lib samples s1 = (Inl e, s1)"
    by (rule rank_samples_raises)
  then have "raft_iteration lib k s = (Inl e, s1)"
    using assms(3,4) by (simp add: raft_iteration_def)
  with assms(1,2) show "raft_loop lib st = (Inl e, s1)"
    by (rule raft_loop_stops_at_failure)
next
  assume "rank_samples lib samples s1 = (Inl e, s')"
  then have "raft_iteration lib k s = (Inl e, s')"
    using assms(3,4) by (simp add: raft_iteration_def)
  with assms(1,2) show "raft_loop lib st = (Inl e, s')"
    by (rule raft_loop_stops_at_failure)
next
  assume a: "rank_samples lib samples s1 = (Inr ranked, s2) \<and>
      take 3 ranked @ take 3 ranked @ take 3 ranked = pre @ sample # post \<and>
      train_samples lib Generative_model pre
        (AdamW lib (weights (generative_model s2)) (1 / 100000)) None
        (s2\<lparr>generative_model := (generative_model s2)\<lparr>training := True\<rparr>\<rparr>)
        = (Inr (optimizer1, loss1), s3) \<and>
      lm_step lib (weights (generative_model s3)) (training (generative_model s3))
        optimizer1 (rng s3) sample = Inl e"
  then have rk: "rank_samples lib samples s1 = (Inr ranked, s2)"
    by blast
  from a have
    "\<exists>lines. fine_tune_model lib Generative_model (take 3 ranked) s2
                = (Inl e, s3\<lparr>stdout := stdout s2 @ lines\<rparr>) \<and>
             (\<forall>n. IterationLine n \<notin> set lines)"
    by (intro fine_tune_model_raises [of _ pre sample post _ _ _ optimizer1 loss1]) simp_all
  then obtain lines where
    ft: "fine_tune_model lib Generative_model (take 3 ranked) s2
           = (Inl e, s3\<lparr>stdout := stdout s2 @ lines\<rparr>)"
    and none: "\<forall>n. IterationLine n \<notin> set lines"
    by blast
  from rk ft have "raft_iteration lib k s = (Inl e, s3\<lparr>stdout := stdout s2 @ lines\<rparr>)"
    using assms(3,4) by (simp add: raft_iteration_def)
  with assms(1,2) have "raft_loop lib st = (Inl e, s3\<lparr>stdout := stdout s2 @ lines\<rparr>)"
    by (rule raft_loop_stops_at_failure)
  with none show "\<exists>lines. raft_loop lib st = (Inl e, s3\<lparr>stdout := stdout s2 @ lines\<rparr>) \<and>
                     (\<forall>n. IterationLine n \<notin> set lines)"
    by blast
next
  assume "rank_samples lib samples s1 = (Inr ranked, s2) \<and>
          fine_tune_model lib Generative_model (take 3 ranked) s2 = (Inl e, s')"
  then have "raft_iteration lib k s = (Inl e, s')"
    using assms(3,4) by (simp add: raft_iteration_def)
  with assms(1,2) show "raft_loop lib st = (Inl e, s')"
    by (rule raft_loop_stops_at_failure)
qed

theorem raft_loop_propagates_exception_witness:
  "((0::nat) < 5 \<and>
    raft_iterations classify_failing_torch [0..<0] toy_notebook = (Inr (), toy_notebook) \<and>
    classify classify_failing_torch 5 False 0 (generate_samples prompt num_samples_default)
      = Inl (LibraryError ''out of memory'') \<and>
    raft_loop classify_failing_torch toy_notebook
      = (Inl (LibraryError ''out of memory''), print_line (IterationLine (0 + 1)) toy_notebook)) \<and>
   ((1::nat) < 5 \<and>
    raft_iterations lm_step_failing_torch [0..<1] toy_notebook =
      (Inr (),
       \<lparr>reward_model = \<lparr>weights = 5, training = False\<rparr>,
        generative_model = \<lparr>weights = 1, training = True\<rparr>,
        rng = 9,
        stdout = [IterationLine 1, FineTuneLossLine 1 65, FineTuneLossLine 2 62,
                  FineTuneLossLine 3 59]\<rparr>) \<and>
    lm_step lm_step_failing_torch 0 True 1 10
        ''Generated response 1 for What is artificial intelligence?''
      = Inl (LibraryError ''loss is not finite'') \<and>
    fst (raft_loop lm_step_failing_torch toy_notebook) = Inl (LibraryError ''loss is not finite'') \<and>
    generative_model (snd (raft_loop lm_step_failing_torch toy_notebook))
      = \<lparr>weights = 0, training = True\<rparr> \<and>
    rng (snd (raft_loop lm_step_failing_torch toy_notebook)) = 10)"
proof -
  let ?after = "\<lparr>reward_model = \<lparr>weights = 5, training = False\<rparr>,
        generative_model = \<lparr>weights = 1, training = True\<rparr>,
        rng = 9,
        stdout = [IterationLine 1, FineTuneLossLine 1 65, FineTuneLossLine 2 62,
                  FineTuneLossLine 3 59]\<rparr> :: (int, nat) notebook"
  let ?ranked = "\<lparr>reward_model = \<lparr>weights = 5, training = False\<rparr>,
        generative_model = \<lparr>weights = 1, training = True\<rparr>,
        rng = 9,
        stdout = [IterationLine 1, FineTuneLossLine 1 65, FineTuneLossLine 2 62,
                  FineTuneLossLine 3 59, IterationLine 2]\<rparr> :: (int, nat) notebook"
  let ?failed = "\<lparr>reward_model = \<lparr>weights = 5, training = False\<rparr>,
        generative_model = \<lparr>weights = 0, training = True\<rparr>,
        rng = 10,
        stdout = [IterationLine 1, FineTuneLossLine 1 65, FineTuneLossLine 2 62,
                  FineTuneLossLine 3 59, IterationLine 2]\<rparr> :: (int, nat) notebook"
  let ?g0 = "''Generated response 0 for What is artificial intelligence?''"
  let ?g1 = "''Generated response 1 for What is artificial intelligence?''"
  let ?g2 = "''Generated response 2 for What is artificial intelligence?''"
  let ?gen = "generate_samples prompt num_samples_default"
  have a0: "(0::nat) < 5" and b0: "(1::nat) < 5"
    by simp_all
  have a1: "raft_iterations classify_failing_torch [0..<0] toy_notebook = (Inr (), toy_notebook)"
    by simp
  have a2: "classify classify_failing_torch w t r ?gen = Inl (LibraryError ''out of memory'')"
    for w t r
    by (simp add: classify_failing_torch_def)
  from raft_loop_propagates_exception [OF a0 a1 refl refl,
      of "LibraryError ''out of memory''"] a2
  have a: "raft_loop classify_failing_torch toy_notebook
      = (Inl (LibraryError ''out of memory''), print_line (IterationLine (0 + 1)) toy_notebook)"
    by blast
  have b1: "raft_iterations lm_step_failing_torch [0..<1] toy_notebook = (Inr (), ?after)"
    by (rule lm_step_failing_first_iteration)
  have b2: "rank_samples lm_step_failing_torch ?gen (print_line (IterationLine (1 + 1)) ?after)
      = (Inr ?gen, ?ranked)"
    by (simp add: generated_default rank_samples_def lm_step_failing_torch_def
        toy_torch_def squeeze_def argsort_descending_def tensor_iter_def
        upt_conv_Cons getitem_def print_line_def)
  have b3: "take 3 ?gen @ take 3 ?gen @ take 3 ?gen
      = [?g0] @ ?g1 # (?g2 # take 3 ?gen @ take 3 ?gen)"
    by (simp add: generated_default)
  have b4: "train_samples lm_step_failing_torch Generative_model [?g0]
        (AdamW lm_step_failing_torch (weights (generative_model ?ranked)) (1 / 100000)) None
        (?ranked\<lparr>generative_model := (generative_model ?ranked)\<lparr>training := True\<rparr>\<rparr>)
      = (Inr (1, Some 58), ?failed)"
    by (simp add: lm_step_failing_torch_def toy_torch_def)
  have b5: "lm_step lm_step_failing_torch (weights (generative_model ?failed))
        (training (generative_model ?failed)) 1 (rng ?failed) ?g1
      = Inl (LibraryError ''loss is not finite'')"
    by (simp add: lm_step_failing_torch_def)
  have b5': "lm_step lm_step_failing_torch 0 True 1 10 ?g1
      = Inl (LibraryError ''loss is not finite'')"
    by (simp add: lm_step_failing_torch_def)
  from raft_loop_propagates_exception [OF b0 b1 refl refl,
      of "LibraryError ''loss is not finite''" _ ?gen ?ranked "[?g0]" ?g1
         "?g2 # take 3 ?gen @ take 3 ?gen" 1 "Some 58" ?failed] b2 b3 b4 b5
  obtain lines where
    "raft_loop lm_step_failing_torch toy_notebook
       = (Inl (LibraryError ''loss is not finite''), ?failed\<lparr>stdout := stdout ?ranked @ lines\<rparr>)"
    by blast
  then have b: "fst (raft_loop lm_step_failing_torch toy_notebook)
        = Inl (LibraryError ''loss is not finite'')"
      "generative_model (snd (raft_loop lm_step_failing_torch toy_notebook))
        = \<lparr>weights = 0, training = True\<rparr>"
      "rng (snd (raft_loop lm_step_failing_torch toy_notebook)) = 10"
    by simp_all
  from a0 a1 a2 a b0 b1 b5' b show ?thesis
    by blast
qed

section \<open>Properties of the reward scoring\<close>

text \<open>
  The training cell puts the reward model in training mode before its loop, and the
  loop does not change the flag; the cell leaves the model in training mode whether
  the loop completes or raises.
\<close>

lemma reward_epochs_training:
  "training (reward_model (snd (reward_epochs lib texts labels es optimizer st)))
     = training (reward_model st)"
  by (induction es arbitrary: optimizer st) (auto split: sum.splits)

lemma train_reward_model_training:
  "training (reward_model (snd (train_reward_model lib st)))"
  by (simp add: train_reward_model_def Let_def reward_epochs_training)

text \<open>
  The small library respects evaluation mode: there its scores are a function of the
  weight and the samples alone, and the random state is untouched.
\<close>

lemma toy_classify_eval:
  "classify toy_torch w False r samples = Inr (map (\<lambda>s. of_int w * real (length s)) samples, r)"
proof -
  have "map (\<lambda>(i, s). f s) (zip [0..<length samples] samples) = map f samples" for f :: "string \<Rightarrow> real"
    by (induction samples rule: rev_induct) auto
  then show ?thesis
    by (simp add: toy_torch_def)
qed

lemma toy_after_training:
  "snd (train_reward_model toy_torch toy_notebook) =
     \<lparr>reward_model = \<lparr>weights = 2, training = True\<rparr>,
      generative_model = \<lparr>weights = 10, training = False\<rparr>,
      rng = 3,
      stdout = [EpochLine 1 5, EpochLine 2 4, EpochLine 3 3]\<rparr>"
  by (simp add: train_reward_model_def toy_torch_def toy_notebook_def Let_def upt_conv_Cons
        print_line_def data_def)

lemma toy_first_ranking:
  "rank_samples toy_torch [''a'', ''bb'']
     \<lparr>reward_model = \<lparr>weights = 2, training = True\<rparr>,
      generative_model = \<lparr>weights = 10, training = False\<rparr>,
      rng = 3,
      stdout = out\<rparr> = (Inr [''a'', ''bb''], 
     \<lparr>reward_model = \<lparr>weights = 2, training = True\<rparr>,
      generative_model = \<lparr>weights = 10, training = False\<rparr>,
      rng = 4,
      stdout = out\<rparr>)"
  by (simp add: rank_samples_def toy_torch_def squeeze_def argsort_descending_def tensor_iter_def
        upt_conv_Cons getitem_def)

lemma toy_second_ranking:
  "rank_samples toy_torch [''a'', ''bb'']
     \<lparr>reward_model = \<lparr>weights = 2, training = True\<rparr>,
      generative_model = \<lparr>weights = 10, training = False\<rparr>,
      rng = 4,
      stdout = out\<rparr> = (Inr [''bb'', ''a''], 
     \<lparr>reward_model = \<lparr>weights = 2, training = True\<rparr>,
      generative_model = \<lparr>weights = 10, training = False\<rparr>,
      rng = 5,
      stdout = out\<rparr>)"
  by (simp add: rank_samples_def toy_torch_def squeeze_def argsort_descending_def tensor_iter_def
        upt_conv_Cons getitem_def)

text \<open>
  C6. The scoring in \<open>rank_samples\<close> is not a function of the text and the weights
  alone. The training cell leaves \<open>reward_model\<close> in training mode, nothing calls
  \<open>reward_model.eval()\<close> afterwards, and \<open>rank_samples\<close> runs the forward pass on the
  model as it stands, so dropout is active and each call draws on the random state and
  advances it. On the small library: after the training cell, two calls in a row on
  the same two samples, with the reward model's weights unchanged in between, score
  them differently and return them in opposite orders.
\<close>

theorem rank_samples_scores_in_training_mode:
  "training (reward_model (snd (train_reward_model lib st))) \<and>
   (let s1 = snd (train_reward_model toy_torch toy_notebook);
        s2 = snd (rank_samples toy_torch [''a'', ''bb''] s1)
    in fst (rank_samples toy_torch [''a'', ''bb''] s1) = Inr [''a'', ''bb''] \<and>
       reward_model s2 = reward_model s1 \<and>
       fst (rank_samples toy_torch [''a'', ''bb''] s2) = Inr [''bb'', ''a''])"
  by (simp add: train_reward_model_training toy_after_training toy_first_ranking toy_second_ranking Let_def)

section \<open>Outside the model\<close>

text \<open>
  Two statements about the notebooks are about what the library computes, not about
  the notebooks' own code, and have no counterpart here: that a checkpoint written with
  \<open>torch.save\<close> and read back with \<open>load_state_dict\<close> gives bit-identical tensors
  (the byte format of the file and the layout of the tensors are the library's), and that
  the three losses of the reward model's training loop do not increase (floating-point
  results of the forward and backward passes on weights the notebook initialises
  without a seed).
\<close>

end
